theory Spec2Isabelle
  imports Main "HOL-Library.Word"
begin

section \<open>Strings and big numbers\<close>

text \<open>
  The handlers of \<^verbatim>\<open>blackjack-event-bot.js\<close> receive an address (a JavaScript string)
  and an amount (an ethers \<^verbatim>\<open>BigNumber\<close>, decoded from the \<^verbatim>\<open>uint256\<close> field of the
  contract event). A \<^verbatim>\<open>BigNumber\<close> is an integer of arbitrary precision: it is
  modelled as \<^typ>\<open>int\<close>. The balance of a user document is a string.
\<close>

text \<open>
  \<^verbatim>\<open>String.prototype.toLowerCase\<close>, on the characters an address is made of: the
  letters \<^verbatim>\<open>A\<close> to \<^verbatim>\<open>Z\<close> move to \<^verbatim>\<open>a\<close> to \<^verbatim>\<open>z\<close>, every other character stays.
\<close>

definition lower_char :: "char \<Rightarrow> char" where
  "lower_char c =
     (let n = (of_char c :: int) in if 65 \<le> n \<and> n \<le> 90 then char_of (n + 32) else c)"

definition toLowerCase :: "string \<Rightarrow> string" where
  "toLowerCase s = map lower_char s"

text \<open>
  \<^verbatim>\<open>BigNumber.prototype.toString\<close>: the decimal numeral, with a leading \<^verbatim>\<open>-\<close> for a
  negative number.
\<close>

definition digit_char :: "int \<Rightarrow> char" where
  "digit_char d = char_of (48 + d)"

function decimal :: "int \<Rightarrow> string" where
  "decimal n = (if n < 10 then [digit_char n] else decimal (n div 10) @ [digit_char (n mod 10)])"
  by pat_completeness auto
termination
  by (relation "measure nat") auto

declare decimal.simps [simp del]

definition toString :: "int \<Rightarrow> string" where
  "toString i = (if i < 0 then CHR ''-'' # decimal (- i) else decimal i)"

text \<open>
  \<^verbatim>\<open>ethers.BigNumber.from\<close> on a string (ethers v5). It accepts a hexadecimal literal
  (\<^verbatim>\<open>/^-?0x[0-9a-f]+$/i\<close>) or a decimal numeral (\<^verbatim>\<open>/^-?[0-9]+$/\<close>), and throws
  \<^verbatim>\<open>invalid BigNumber string\<close> on anything else. The prefix \<^verbatim>\<open>0x\<close> is read in lower
  case only. On a \<^verbatim>\<open>BigNumber\<close> it is the identity.
\<close>

datatype js_error =
    InvalidBigNumberString string
  | TypeError
  | StoreError
  | DocumentNotFoundError

definition isDigit :: "char \<Rightarrow> bool" where
  "isDigit c = (let n = (of_char c :: int) in 48 \<le> n \<and> n \<le> 57)"

definition isHexDigit :: "char \<Rightarrow> bool" where
  "isHexDigit c =
     (let n = (of_char c :: int) in
        (48 \<le> n \<and> n \<le> 57) \<or> (97 \<le> n \<and> n \<le> 102) \<or> (65 \<le> n \<and> n \<le> 70))"

definition digit_val :: "char \<Rightarrow> int" where
  "digit_val c =
     (let n = (of_char c :: int) in
        if 97 \<le> n then n - 87 else if 65 \<le> n then n - 55 else n - 48)"

definition parse_base :: "int \<Rightarrow> string \<Rightarrow> int" where
  "parse_base base ds = foldl (\<lambda>acc c. base * acc + digit_val c) 0 ds"

definition strip_sign :: "string \<Rightarrow> bool \<times> string" where
  "strip_sign s =
     (case s of
        [] \<Rightarrow> (False, [])
      | c # cs \<Rightarrow> if c = CHR ''-'' then (True, cs) else (False, s))"

definition is_hex_literal :: "string \<Rightarrow> bool" where
  "is_hex_literal s =
     (let r = snd (strip_sign s)
      in take 2 r = ''0x'' \<and> drop 2 r \<noteq> [] \<and> list_all isHexDigit (drop 2 r))"

definition is_decimal :: "string \<Rightarrow> bool" where
  "is_decimal s = (let r = snd (strip_sign s) in r \<noteq> [] \<and> list_all isDigit r)"

definition with_sign :: "bool \<Rightarrow> int \<Rightarrow> int" where
  "with_sign neg n = (if neg then - n else n)"

definition BigNumber_from :: "string \<Rightarrow> js_error + int" where
  "BigNumber_from s =
     (let (neg, r) = strip_sign s in
        if is_hex_literal s then Inr (with_sign neg (parse_base 16 (drop 2 r)))
        else if is_decimal s then Inr (with_sign neg (parse_base 10 r))
        else Inl (InvalidBigNumberString s))"

text \<open>
  \<^verbatim>\<open>weiToEtherString(weiAmount)\<close>: \<^verbatim>\<open>ethers.utils.formatEther(weiAmount).toString()\<close>,
  the amount divided by \<open>10 ^ 18\<close> as a decimal fraction: the whole part, a point,
  and the 18 digits of the fraction without their trailing zeros (one digit at least).
\<close>

definition strip_trailing_zeros :: "string \<Rightarrow> string" where
  "strip_trailing_zeros ds =
     (let r = rev (dropWhile (\<lambda>c. c = CHR ''0'') (rev ds)) in if r = [] then ''0'' else r)"

definition weiToEtherString :: "int \<Rightarrow> string" where
  "weiToEtherString weiAmount =
     (let v = \<bar>weiAmount\<bar>;
          fraction = decimal (v mod 10 ^ 18);
          padded = replicate (18 - length fraction) (CHR ''0'') @ fraction;
          whole = decimal (v div 10 ^ 18);
          shown = whole @ ''.'' @ strip_trailing_zeros padded
      in if weiAmount < 0 then CHR ''-'' # shown else shown)"

text \<open>\<^verbatim>\<open>parseWeiToString(weiAmount)\<close>: \<^verbatim>\<open>weiAmount.toString()\<close>.\<close>

definition parseWeiToString :: "int \<Rightarrow> string" where
  "parseWeiToString weiAmount = toString weiAmount"

section \<open>The User model\<close>

text \<open>
  A user document, as the handlers read and write it: the fields \<^verbatim>\<open>address\<close> and
  \<^verbatim>\<open>balance\<close>.
\<close>

record user_doc =
  address :: string
  balance :: string

text \<open>
  The handlers reach the store through three calls of the mongoose model \<^verbatim>\<open>User\<close>
  (\<^verbatim>\<open>./models/User\<close>), which the handlers take as a parameter here:
  \<^item> \<^verbatim>\<open>User.findOneAndUpdate({address: a}, {balance: b}, {upsert: true, new: true})\<close>,
  \<^item> \<^verbatim>\<open>User.findOne({address: a})\<close>,
  \<^item> \<^verbatim>\<open>user.save()\<close>.
  Each call takes the store, returns the store after the call, and either throws
  (\<open>Inl\<close>) or returns; a query returns a document or \<^verbatim>\<open>null\<close> (\<open>None\<close>).
\<close>

record 'db User_model =
  findOneAndUpdate :: "string \<Rightarrow> string \<Rightarrow> 'db \<Rightarrow> 'db \<times> (js_error + user_doc option)"
  findOne :: "string \<Rightarrow> 'db \<Rightarrow> 'db \<times> (js_error + user_doc option)"
  save :: "user_doc \<Rightarrow> 'db \<Rightarrow> 'db \<times> (js_error + unit)"

text \<open>
  Modelled from the spec: the schema of \<^verbatim>\<open>./models/User\<close> and the collection behind it,
  which are not part of the source file. The spec gives the persisted record as
  \<^verbatim>\<open>{ accountId: lower-case address string, balance: unsigned-integer-string }\<close>, one record
  per account, and the store as a document store with read and upsert. The collection is
  a map from the address to the balance string. \<open>faults\<close> is the schedule of transient
  failures: each call of the store consumes its head, and throws without touching the
  collection when the head is \<open>True\<close>; an empty schedule is a healthy store.
\<close>

record mongo =
  users :: "string \<rightharpoonup> string"
  faults :: "bool list"

definition attempt :: "mongo \<Rightarrow> mongo \<times> bool" where
  "attempt db =
     (case faults db of
        [] \<Rightarrow> (db, False)
      | f # fs \<Rightarrow> (db\<lparr>faults := fs\<rparr>, f))"

definition mongo_findOneAndUpdate ::
  "string \<Rightarrow> string \<Rightarrow> mongo \<Rightarrow> mongo \<times> (js_error + user_doc option)" where
  "mongo_findOneAndUpdate a b db =
     (let (db', failed) = attempt db in
        if failed then (db', Inl StoreError)
        else (db'\<lparr>users := (users db')(a \<mapsto> b)\<rparr>, Inr (Some \<lparr>address = a, balance = b\<rparr>)))"

definition mongo_findOne :: "string \<Rightarrow> mongo \<Rightarrow> mongo \<times> (js_error + user_doc option)" where
  "mongo_findOne a db =
     (let (db', failed) = attempt db in
        if failed then (db', Inl StoreError)
        else (db', Inr (map_option (\<lambda>b. \<lparr>address = a, balance = b\<rparr>) (users db' a))))"

definition mongo_save :: "user_doc \<Rightarrow> mongo \<Rightarrow> mongo \<times> (js_error + unit)" where
  "mongo_save user db =
     (let (db', failed) = attempt db in
        if failed then (db', Inl StoreError)
        else if users db' (address user) = None then (db', Inl DocumentNotFoundError)
        else (db'\<lparr>users := (users db')(address user \<mapsto> balance user)\<rparr>, Inr ()))"

definition User :: "mongo User_model" where
  "User = \<lparr>findOneAndUpdate = mongo_findOneAndUpdate,
           findOne = mongo_findOne,
           save = mongo_save\<rparr>"

section \<open>The handlers\<close>

text \<open>
  What the handlers print: one constructor per call of \<^verbatim>\<open>console.log\<close>,
  \<^verbatim>\<open>console.warn\<close> and \<^verbatim>\<open>console.error\<close>, with the values the message interpolates.
\<close>

datatype console_line =
    Log_Deposit string string
  | Log_Withdrawal string string
  | Log_Updated string string
  | Warn_NotFound string
  | Warn_Insufficient string string string
  | Error_Deposit js_error
  | Error_Withdrawal js_error

record 'db state =
  store :: 'db
  console :: "console_line list"

definition print :: "console_line \<Rightarrow> 'db state \<Rightarrow> 'db state" where
  "print l s = s\<lparr>console := console s @ [l]\<rparr>"

text \<open>
  A block either completes (\<open>Inr\<close>) or throws (\<open>Inl\<close>). \<^verbatim>\<open>try { body } catch (error) { h }\<close>
  runs the body and, when it throws, the catch block on the state the body left.
\<close>

type_synonym 'db block = "'db state \<Rightarrow> 'db state \<times> (js_error + unit)"

definition try_catch :: "'db block \<Rightarrow> (js_error \<Rightarrow> 'db block) \<Rightarrow> 'db block" where
  "try_catch body h s =
     (case body s of
        (s', Inr u) \<Rightarrow> (s', Inr u)
      | (s', Inl error) \<Rightarrow> h error s')"

text \<open>
  The body of the \<^verbatim>\<open>try\<close> of \<^verbatim>\<open>handleDeposit\<close> (lines 53 to 62). Reading
  \<^verbatim>\<open>user.balance\<close> of \<^verbatim>\<open>null\<close> throws a \<^verbatim>\<open>TypeError\<close>.
\<close>

definition handleDeposit_body :: "'db User_model \<Rightarrow> string \<Rightarrow> int \<Rightarrow> 'db block" where
  "handleDeposit_body U userAddress amount s =
     (let s1 = print (Log_Deposit userAddress (weiToEtherString amount)) s in
      case findOneAndUpdate U (toLowerCase userAddress) (parseWeiToString amount) (store s1) of
        (db, Inl error) \<Rightarrow> (s1\<lparr>store := db\<rparr>, Inl error)
      | (db, Inr None) \<Rightarrow> (s1\<lparr>store := db\<rparr>, Inl TypeError)
      | (db, Inr (Some user)) \<Rightarrow>
          (print (Log_Updated userAddress (balance user)) (s1\<lparr>store := db\<rparr>), Inr ()))"

definition handleDeposit :: "'db User_model \<Rightarrow> string \<Rightarrow> int \<Rightarrow> 'db block" where
  "handleDeposit U userAddress amount =
     try_catch (handleDeposit_body U userAddress amount)
       (\<lambda>error s. (print (Error_Deposit error) s, Inr ()))"

text \<open>
  The body of the \<^verbatim>\<open>try\<close> of \<^verbatim>\<open>handleWithdrawalProcessed\<close> (lines 71 to 93). The
  amount is a \<^verbatim>\<open>BigNumber\<close> already, so \<^verbatim>\<open>ethers.BigNumber.from(amount)\<close> is the amount;
  \<^verbatim>\<open>ethers.BigNumber.from(user.balance)\<close> reads a string and can throw.
\<close>

definition handleWithdrawalProcessed_body ::
  "'db User_model \<Rightarrow> string \<Rightarrow> int \<Rightarrow> 'db block" where
  "handleWithdrawalProcessed_body U userAddress amount s =
     (let s1 = print (Log_Withdrawal userAddress (weiToEtherString amount)) s in
      case findOne U (toLowerCase userAddress) (store s1) of
        (db, Inl error) \<Rightarrow> (s1\<lparr>store := db\<rparr>, Inl error)
      | (db, Inr None) \<Rightarrow> (print (Warn_NotFound userAddress) (s1\<lparr>store := db\<rparr>), Inr ())
      | (db, Inr (Some user)) \<Rightarrow>
          (let s2 = s1\<lparr>store := db\<rparr> in
           case BigNumber_from (balance user) of
             Inl error \<Rightarrow> (s2, Inl error)
           | Inr currentBalance \<Rightarrow>
               (let withdrawalAmount = amount in
                if currentBalance < withdrawalAmount
                then (print (Warn_Insufficient userAddress (balance user) (toString amount)) s2,
                      Inr ())
                else
                  (let newBalance = currentBalance - withdrawalAmount;
                       user' = user\<lparr>balance := toString newBalance\<rparr>
                   in case save U user' (store s2) of
                        (db', Inl error) \<Rightarrow> (s2\<lparr>store := db'\<rparr>, Inl error)
                      | (db', Inr _) \<Rightarrow>
                          (print (Log_Updated userAddress (balance user')) (s2\<lparr>store := db'\<rparr>),
                           Inr ())))))"

definition handleWithdrawalProcessed :: "'db User_model \<Rightarrow> string \<Rightarrow> int \<Rightarrow> 'db block" where
  "handleWithdrawalProcessed U userAddress amount =
     try_catch (handleWithdrawalProcessed_body U userAddress amount)
       (\<lambda>error s. (print (Error_Withdrawal error) s, Inr ()))"

section \<open>The event listeners\<close>

text \<open>
  \<^verbatim>\<open>setupEventListeners\<close> registers one callback per event of the contract. A callback
  receives the user (an address), the amount (a \<^verbatim>\<open>uint256\<close>, decoded to a
  \<^verbatim>\<open>BigNumber\<close>) and the event object, which identifies the log entry on the chain; it
  calls the handler with the user and the amount and drops what the handler returns.
  The callbacks do not wait for the handlers. \<open>deliver\<close> is one delivery, handled to
  its end; \<open>run\<close> is a sequence of deliveries in which the handler of each event has
  completed when the next event is delivered. Deliveries so close that two handlers
  overlap at their store calls are outside \<open>run\<close>.
\<close>

type_synonym eventId = string

datatype contract_event =
    Deposit string "256 word" eventId
  | WithdrawalProcessed string "256 word" eventId

fun deliver :: "'db User_model \<Rightarrow> contract_event \<Rightarrow> 'db state \<Rightarrow> 'db state" where
  "deliver U (Deposit user amount event) s = fst (handleDeposit U user (uint amount) s)"
| "deliver U (WithdrawalProcessed user amount event) s =
     fst (handleWithdrawalProcessed U user (uint amount) s)"

fun run :: "'db User_model \<Rightarrow> contract_event list \<Rightarrow> 'db state \<Rightarrow> 'db state" where
  "run U [] s = s"
| "run U (e # es) s = run U es (deliver U e s)"

section \<open>Stored balances and example stores\<close>

text \<open>
  A stored balance is a string; the number it holds is what \<open>BigNumber_from\<close> reads
  from it. \<open>balances_nonneg\<close>: every balance of the collection reads as an integer
  that is not negative. \<open>keys_lower\<close>: every address of the collection is in lower case.
\<close>

definition balance_nonneg :: "string \<Rightarrow> bool" where
  "balance_nonneg bal = (case BigNumber_from bal of Inl _ \<Rightarrow> False | Inr b \<Rightarrow> 0 \<le> b)"

definition balances_nonneg :: "mongo \<Rightarrow> bool" where
  "balances_nonneg db = (\<forall>bal \<in> ran (users db). balance_nonneg bal)"

definition keys_lower :: "mongo \<Rightarrow> bool" where
  "keys_lower db = (\<forall>a \<in> dom (users db). toLowerCase a = a)"

text \<open>
  Example stores: no account; the account \<^verbatim>\<open>0xabc\<close> with the balance 100; a record
  kept under the upper-case spelling \<^verbatim>\<open>0xABC\<close>; no account and a store whose next call
  fails; the account \<^verbatim>\<open>0xabc\<close> and a store whose second call fails.
\<close>

definition no_account :: "mongo state" where
  "no_account = \<lparr>store = \<lparr>users = Map.empty, faults = []\<rparr>, console = []\<rparr>"

definition one_account :: "mongo state" where
  "one_account = \<lparr>store = \<lparr>users = [''0xabc'' \<mapsto> ''100''], faults = []\<rparr>, console = []\<rparr>"

definition upper_case_account :: "mongo state" where
  "upper_case_account =
     \<lparr>store = \<lparr>users = [''0xABC'' \<mapsto> ''100''], faults = []\<rparr>, console = []\<rparr>"

definition store_down_once :: "mongo state" where
  "store_down_once = \<lparr>store = \<lparr>users = Map.empty, faults = [True]\<rparr>, console = []\<rparr>"

definition save_down_once :: "mongo state" where
  "save_down_once =
     \<lparr>store = \<lparr>users = [''0xabc'' \<mapsto> ''100''], faults = [False, True]\<rparr>, console = []\<rparr>"

section \<open>Decimal numerals\<close>

lemma lower_char_idem: "lower_char (lower_char c) = lower_char c"
  by (simp add: lower_char_def Let_def)

lemma toLowerCase_idem: "toLowerCase (toLowerCase s) = toLowerCase s"
  by (simp add: toLowerCase_def lower_char_idem)

lemma isDigit_digit_char: "0 \<le> d \<Longrightarrow> d < 10 \<Longrightarrow> isDigit (digit_char d)"
  by (simp add: isDigit_def digit_char_def)

lemma digit_val_digit_char: "0 \<le> d \<Longrightarrow> d < 10 \<Longrightarrow> digit_val (digit_char d) = d"
  by (simp add: digit_val_def digit_char_def)

lemma decimal_digits: "0 \<le> n \<Longrightarrow> list_all isDigit (decimal n)"
proof (induction n rule: decimal.induct)
  case (1 n)
  show ?case
  proof (cases "n < 10")
    case True
    with "1.prems" show ?thesis
      by (subst decimal.simps) (simp add: isDigit_digit_char)
  next
    case False
    with 1 have "list_all isDigit (decimal (n div 10))"
      by simp
    with False show ?thesis
      by (subst decimal.simps) (simp add: isDigit_digit_char)
  qed
qed

lemma decimal_nonempty: "decimal n \<noteq> []"
  by (subst decimal.simps) simp

lemma parse_base_snoc: "parse_base b (ds @ [c]) = b * parse_base b ds + digit_val c"
  by (simp add: parse_base_def)

lemma parse_decimal: "0 \<le> n \<Longrightarrow> parse_base 10 (decimal n) = n"
proof (induction n rule: decimal.induct)
  case (1 n)
  show ?case
  proof (cases "n < 10")
    case True
    with "1.prems" show ?thesis
      by (subst decimal.simps) (simp add: parse_base_def digit_val_digit_char)
  next
    case False
    with 1 have "parse_base 10 (decimal (n div 10)) = n div 10"
      by simp
    with False show ?thesis
      by (subst decimal.simps) (simp add: parse_base_snoc digit_val_digit_char)
  qed
qed

lemma isDigit_not_minus: "isDigit c \<Longrightarrow> c \<noteq> CHR ''-''"
  by (auto simp: isDigit_def)

lemma isDigit_not_x: "isDigit c \<Longrightarrow> c \<noteq> CHR ''x''"
  by (auto simp: isDigit_def)

lemma digits_not_hex_prefix: "list_all isDigit r \<Longrightarrow> take 2 r \<noteq> ''0x''"
  by (cases r; cases "tl r") (auto dest: isDigit_not_x)

lemma strip_sign_digits: "list_all isDigit r \<Longrightarrow> strip_sign r = (False, r)"
  by (cases r) (auto simp: strip_sign_def dest: isDigit_not_minus)

lemma strip_sign_minus: "strip_sign (CHR ''-'' # r) = (True, r)"
  by (simp add: strip_sign_def)

text \<open>Reading back what \<open>toString\<close> wrote gives the number that was written.\<close>

lemma BigNumber_from_toString: "BigNumber_from (toString i) = Inr i"
proof (cases "i < 0")
  case True
  then show ?thesis
    by (simp add: BigNumber_from_def toString_def strip_sign_minus is_hex_literal_def
        is_decimal_def digits_not_hex_prefix decimal_digits decimal_nonempty parse_decimal
        with_sign_def)
next
  case False
  then show ?thesis
    by (simp add: BigNumber_from_def toString_def strip_sign_digits is_hex_literal_def
        is_decimal_def digits_not_hex_prefix decimal_digits decimal_nonempty parse_decimal
        with_sign_def)
qed

lemma toString_zero: "toString 0 = ''0''"
  by code_simp

lemma balance_nonneg_toString: "0 \<le> i \<Longrightarrow> balance_nonneg (toString i)"
  by (simp add: balance_nonneg_def BigNumber_from_toString)

section \<open>The handlers on the store\<close>

lemma attempt_healthy: "faults db = [] \<Longrightarrow> attempt db = (db, False)"
  by (simp add: attempt_def)

lemma attempt_scheduled: "faults db = f # fs \<Longrightarrow> attempt db = (db\<lparr>faults := fs\<rparr>, f)"
  by (simp add: attempt_def)

lemma attempt_users: "users (fst (attempt db)) = users db"
  by (simp add: attempt_def split: list.splits)

lemma attempt_cases:
  obtains db f where "attempt d = (db, f)" and "users db = users d"
  using attempt_users [of d] by (cases "attempt d") auto

lemmas User_calls = User_def mongo_findOneAndUpdate_def mongo_findOne_def mongo_save_def

lemmas handler_defs = handleDeposit_def handleDeposit_body_def handleWithdrawalProcessed_def
  handleWithdrawalProcessed_body_def try_catch_def print_def parseWeiToString_def Let_def

lemma handleDeposit_healthy:
  assumes "attempt (store s) = (db, False)"
  shows "handleDeposit User userAddress amount s =
    (\<lparr>store = db\<lparr>users := (users db)(toLowerCase userAddress \<mapsto> toString amount)\<rparr>,
      console = console s @ [Log_Deposit userAddress (weiToEtherString amount),
                             Log_Updated userAddress (toString amount)]\<rparr>, Inr ())"
  using assms by (simp add: handler_defs User_calls)

lemma handleDeposit_failed:
  assumes "attempt (store s) = (db, True)"
  shows "handleDeposit User userAddress amount s =
    (\<lparr>store = db,
      console = console s @ [Log_Deposit userAddress (weiToEtherString amount),
                             Error_Deposit StoreError]\<rparr>, Inr ())"
  using assms by (simp add: handler_defs User_calls)

lemma handleWithdrawalProcessed_failed:
  assumes "attempt (store s) = (db, True)"
  shows "handleWithdrawalProcessed User userAddress amount s =
    (\<lparr>store = db,
      console = console s @ [Log_Withdrawal userAddress (weiToEtherString amount),
                             Error_Withdrawal StoreError]\<rparr>, Inr ())"
  using assms by (simp add: handler_defs User_calls)

lemma handleWithdrawalProcessed_not_found:
  assumes "attempt (store s) = (db, False)" and "users db (toLowerCase userAddress) = None"
  shows "handleWithdrawalProcessed User userAddress amount s =
    (\<lparr>store = db,
      console = console s @ [Log_Withdrawal userAddress (weiToEtherString amount),
                             Warn_NotFound userAddress]\<rparr>, Inr ())"
  using assms by (simp add: handler_defs User_calls)

lemma handleWithdrawalProcessed_invalid:
  assumes "attempt (store s) = (db, False)" and "users db (toLowerCase userAddress) = Some bal"
    and "BigNumber_from bal = Inl error"
  shows "handleWithdrawalProcessed User userAddress amount s =
    (\<lparr>store = db,
      console = console s @ [Log_Withdrawal userAddress (weiToEtherString amount),
                             Error_Withdrawal error]\<rparr>, Inr ())"
  using assms by (simp add: handler_defs User_calls)

lemma handleWithdrawalProcessed_insufficient:
  assumes "attempt (store s) = (db, False)" and "users db (toLowerCase userAddress) = Some bal"
    and "BigNumber_from bal = Inr b" and "b < amount"
  shows "handleWithdrawalProcessed User userAddress amount s =
    (\<lparr>store = db,
      console = console s @ [Log_Withdrawal userAddress (weiToEtherString amount),
                             Warn_Insufficient userAddress bal (toString amount)]\<rparr>, Inr ())"
  using assms by (simp add: handler_defs User_calls)

lemma handleWithdrawalProcessed_save_failed:
  assumes "attempt (store s) = (db, False)" and "users db (toLowerCase userAddress) = Some bal"
    and "BigNumber_from bal = Inr b" and "amount \<le> b" and "attempt db = (db', True)"
  shows "handleWithdrawalProcessed User userAddress amount s =
    (\<lparr>store = db',
      console = console s @ [Log_Withdrawal userAddress (weiToEtherString amount),
                             Error_Withdrawal StoreError]\<rparr>, Inr ())"
  using assms by (simp add: handler_defs User_calls)

lemma handleWithdrawalProcessed_applied:
  assumes "attempt (store s) = (db, False)" and "users db (toLowerCase userAddress) = Some bal"
    and "BigNumber_from bal = Inr b" and "amount \<le> b" and "attempt db = (db', False)"
  shows "handleWithdrawalProcessed User userAddress amount s =
    (\<lparr>store = db'\<lparr>users := (users db')(toLowerCase userAddress \<mapsto> toString (b - amount))\<rparr>,
      console = console s @ [Log_Withdrawal userAddress (weiToEtherString amount),
                             Log_Updated userAddress (toString (b - amount))]\<rparr>, Inr ())"
proof -
  from assms(2,5) have "users db' (toLowerCase userAddress) = Some bal"
    using attempt_users [of db] by simp
  with assms show ?thesis by (simp add: handler_defs User_calls)
qed

lemma withdrawal_healthy_applied:
  assumes "faults (store s) = []"
    and "users (store s) k = Some bal" and "k = toLowerCase user"
    and "BigNumber_from bal = Inr b" and "amount \<le> b"
  shows "store (fst (handleWithdrawalProcessed User user amount s)) =
    (store s)\<lparr>users := (users (store s))(k \<mapsto> toString (b - amount))\<rparr>"
proof -
  from assms(1) have a: "attempt (store s) = (store s, False)"
    by (rule attempt_healthy)
  from assms(2,3) have u: "users (store s) (toLowerCase user) = Some bal"
    by simp
  from handleWithdrawalProcessed_applied [OF a u assms(4) assms(5) a] assms(3)
  show ?thesis by simp
qed

text \<open>
  What a handler can do to the collection: nothing, or write one balance under the
  lower-cased address and print the line \<^verbatim>\<open>Updated user\<close>.
\<close>

lemma deposit_effect:
  "users (store (fst (handleDeposit User user amount s))) = users (store s) \<or>
   users (store (fst (handleDeposit User user amount s))) =
     (users (store s))(toLowerCase user \<mapsto> toString amount) \<and>
   last (console (fst (handleDeposit User user amount s))) = Log_Updated user (toString amount)"
proof -
  obtain db f where a: "attempt (store s) = (db, f)" and u: "users db = users (store s)"
    by (rule attempt_cases)
  show ?thesis
  proof (cases f)
    case True
    with a u show ?thesis by (simp add: handleDeposit_failed)
  next
    case False
    with a u show ?thesis by (simp add: handleDeposit_healthy)
  qed
qed

lemma withdrawal_effect:
  "users (store (fst (handleWithdrawalProcessed User user amount s))) = users (store s) \<or>
   (\<exists>bal b. users (store s) (toLowerCase user) = Some bal \<and> BigNumber_from bal = Inr b \<and>
      amount \<le> b \<and>
      users (store (fst (handleWithdrawalProcessed User user amount s))) =
        (users (store s))(toLowerCase user \<mapsto> toString (b - amount)) \<and>
      last (console (fst (handleWithdrawalProcessed User user amount s))) =
        Log_Updated user (toString (b - amount)))"
proof -
  obtain db f where a: "attempt (store s) = (db, f)" and u: "users db = users (store s)"
    by (rule attempt_cases)
  obtain db' f' where a': "attempt db = (db', f')" and u': "users db' = users db"
    by (rule attempt_cases)
  show ?thesis
  proof (cases f)
    case True
    with a u show ?thesis by (simp add: handleWithdrawalProcessed_failed)
  next
    case healthy: False
    show ?thesis
    proof (cases "users db (toLowerCase user)")
      case None
      with a u healthy show ?thesis by (simp add: handleWithdrawalProcessed_not_found)
    next
      case (Some bal)
      show ?thesis
      proof (cases "BigNumber_from bal")
        case (Inl error)
        with a u healthy Some show ?thesis by (simp add: handleWithdrawalProcessed_invalid)
      next
        case (Inr b)
        show ?thesis
        proof (cases "b < amount")
          case True
          with a u healthy Some Inr show ?thesis
            by (simp add: handleWithdrawalProcessed_insufficient)
        next
          case enough: False
          show ?thesis
          proof (cases f')
            case True
            with a u a' u' healthy Some Inr enough show ?thesis
              by (simp add: handleWithdrawalProcessed_save_failed)
          next
            case False
            with a u a' u' healthy Some Inr enough show ?thesis
              by (simp add: handleWithdrawalProcessed_applied)
          qed
        qed
      qed
    qed
  qed
qed

section \<open>Every exception is caught\<close>

lemma try_catch_returns:
  "(\<And>error s'. snd (h error s') = Inr ()) \<Longrightarrow> snd (try_catch body h s) = Inr ()"
  by (auto simp: try_catch_def split: prod.splits sum.splits)

lemma try_catch_thrown:
  "body s = (s', Inl error) \<Longrightarrow> try_catch body h s = h error s'"
  by (simp add: try_catch_def)

text \<open>
  C10: whatever the address and the amount are, and whatever the three calls of the
  User model do (return a document, return nothing, or throw, leaving any store behind),
  \<open>handleDeposit\<close> and \<open>handleWithdrawalProcessed\<close> complete normally: the promise of the
  handler is never rejected, so nothing reaches the callback of the listener. When the
  body of the \<^verbatim>\<open>try\<close> throws, the handler prints the error on the state the body left
  and does nothing else.
\<close>

theorem handlers_return_normally:
  "snd (handleDeposit U userAddress amount s) = Inr () \<and>
   snd (handleWithdrawalProcessed U userAddress amount s) = Inr () \<and>
   (handleDeposit_body U userAddress amount s = (s', Inl error) \<longrightarrow>
      handleDeposit U userAddress amount s = (print (Error_Deposit error) s', Inr ())) \<and>
   (handleWithdrawalProcessed_body U userAddress amount s = (s', Inl error) \<longrightarrow>
      handleWithdrawalProcessed U userAddress amount s =
        (print (Error_Withdrawal error) s', Inr ()))"
  by (simp add: handleDeposit_def handleWithdrawalProcessed_def try_catch_returns
      try_catch_thrown)

theorem handlers_return_normally_witness:
  "handleDeposit_body User ''0xABC'' 100 store_down_once =
     (\<lparr>store = \<lparr>users = Map.empty, faults = []\<rparr>,
       console = [Log_Deposit ''0xABC'' (weiToEtherString 100)]\<rparr>, Inl StoreError) \<and>
   handleDeposit User ''0xABC'' 100 store_down_once =
     (print (Error_Deposit StoreError)
        \<lparr>store = \<lparr>users = Map.empty, faults = []\<rparr>,
          console = [Log_Deposit ''0xABC'' (weiToEtherString 100)]\<rparr>, Inr ()) \<and>
   handleWithdrawalProcessed_body User ''0xABC'' 40 store_down_once =
     (\<lparr>store = \<lparr>users = Map.empty, faults = []\<rparr>,
       console = [Log_Withdrawal ''0xABC'' (weiToEtherString 40)]\<rparr>, Inl StoreError) \<and>
   handleWithdrawalProcessed User ''0xABC'' 40 store_down_once =
     (print (Error_Withdrawal StoreError)
        \<lparr>store = \<lparr>users = Map.empty, faults = []\<rparr>,
          console = [Log_Withdrawal ''0xABC'' (weiToEtherString 40)]\<rparr>, Inr ())"
proof -
  have h1: "handleDeposit_body User ''0xABC'' 100 store_down_once =
     (\<lparr>store = \<lparr>users = Map.empty, faults = []\<rparr>,
       console = [Log_Deposit ''0xABC'' (weiToEtherString 100)]\<rparr>, Inl StoreError)"
    by (simp add: handleDeposit_body_def print_def Let_def User_calls attempt_def
        store_down_once_def)
  have h2: "handleWithdrawalProcessed_body User ''0xABC'' 40 store_down_once =
     (\<lparr>store = \<lparr>users = Map.empty, faults = []\<rparr>,
       console = [Log_Withdrawal ''0xABC'' (weiToEtherString 40)]\<rparr>, Inl StoreError)"
    by (simp add: handleWithdrawalProcessed_body_def print_def Let_def User_calls attempt_def
        store_down_once_def)
  note t = handlers_return_normally [where U = User and userAddress = "''0xABC''"
      and s = store_down_once and error = StoreError]
  note r1 = t [where amount = 100, THEN conjunct2, THEN conjunct2, THEN conjunct1,
      rule_format, OF h1]
  note r2 = t [where amount = 40, THEN conjunct2, THEN conjunct2, THEN conjunct2,
      rule_format, OF h2]
  show ?thesis
    by (intro conjI; fact h1 h2 r1 r2)
qed

section \<open>Withdrawals\<close>

text \<open>
  C3: on a store that answers, when the record of the lower-cased address holds the
  balance \<open>b\<close> and the amount of the withdrawal is greater than \<open>b\<close>, the handler
  writes nothing: the store is the one it started from, and all it does is print the
  line of the event and the warning \<^verbatim>\<open>Insufficient balance\<close>, the rejection for
  insufficient balance.
\<close>

theorem withdrawal_above_balance_rejected:
  assumes "faults (store s) = []"
    and "users (store s) (toLowerCase userAddress) = Some bal"
    and "BigNumber_from bal = Inr b"
    and "b < amount"
  shows "handleWithdrawalProcessed User userAddress amount s =
    (s\<lparr>console := console s @ [Log_Withdrawal userAddress (weiToEtherString amount),
                                Warn_Insufficient userAddress bal (toString amount)]\<rparr>, Inr ())"
  using assms
  by (simp add: handleWithdrawalProcessed_insufficient [where db = "store s"] attempt_healthy)

theorem withdrawal_above_balance_rejected_witness:
  "faults (store one_account) = [] \<and>
   users (store one_account) (toLowerCase ''0xABC'') = Some ''100'' \<and>
   BigNumber_from ''100'' = Inr 100 \<and> (100::int) < 1000 \<and>
   handleWithdrawalProcessed User ''0xABC'' 1000 one_account =
    (one_account\<lparr>console := console one_account @
       [Log_Withdrawal ''0xABC'' (weiToEtherString 1000),
        Warn_Insufficient ''0xABC'' ''100'' (toString 1000)]\<rparr>, Inr ())"
proof -
  have h1: "faults (store one_account) = []"
    by (simp add: one_account_def)
  have h2: "users (store one_account) (toLowerCase ''0xABC'') = Some ''100''"
    by code_simp
  have h3: "BigNumber_from ''100'' = Inr 100"
    by code_simp
  have h4: "(100::int) < 1000"
    by simp
  from withdrawal_above_balance_rejected [OF h1 h2 h3 h4] h1 h2 h3 h4 show ?thesis
    by blast
qed

text \<open>
  C5: on a store that answers, when there is no record under the lower-cased address,
  a withdrawal leaves the store as it is (no record is created) and prints the warning
  \<^verbatim>\<open>not found for withdrawal\<close>, the rejection for an unknown account.
\<close>

theorem withdrawal_unknown_account_rejected:
  assumes "faults (store s) = []"
    and "users (store s) (toLowerCase userAddress) = None"
  shows "handleWithdrawalProcessed User userAddress amount s =
    (s\<lparr>console := console s @ [Log_Withdrawal userAddress (weiToEtherString amount),
                                Warn_NotFound userAddress]\<rparr>, Inr ())"
  using assms
  by (simp add: handleWithdrawalProcessed_not_found [where db = "store s"] attempt_healthy)

theorem withdrawal_unknown_account_rejected_witness:
  "faults (store one_account) = [] \<and>
   users (store one_account) (toLowerCase ''0xDEF'') = None \<and>
   handleWithdrawalProcessed User ''0xDEF'' 40 one_account =
    (one_account\<lparr>console := console one_account @
       [Log_Withdrawal ''0xDEF'' (weiToEtherString 40), Warn_NotFound ''0xDEF'']\<rparr>, Inr ())"
proof -
  have h1: "faults (store one_account) = []"
    by (simp add: one_account_def)
  have h2: "users (store one_account) (toLowerCase ''0xDEF'') = None"
    by code_simp
  from withdrawal_unknown_account_rejected [OF h1 h2] h1 h2 show ?thesis
    by blast
qed

text \<open>
  C6: on a store that answers, when the record holds the balance \<open>b\<close> and the amount
  \<open>a\<close> is at most \<open>b\<close>, the handler writes back the decimal numeral of \<open>b - a\<close>, a
  difference of unbounded integers, which reads back as \<open>b - a\<close>; no other record
  changes. With \<open>a = b\<close> the withdrawal is applied and the record holds \<^verbatim>\<open>0\<close>.
\<close>

theorem withdrawal_within_balance_applied:
  assumes "faults (store s) = []"
    and "users (store s) (toLowerCase userAddress) = Some bal"
    and "BigNumber_from bal = Inr b"
    and "amount \<le> b"
  shows "handleWithdrawalProcessed User userAddress amount s =
      (\<lparr>store = (store s)\<lparr>users :=
                 (users (store s))(toLowerCase userAddress \<mapsto> toString (b - amount))\<rparr>,
        console = console s @ [Log_Withdrawal userAddress (weiToEtherString amount),
                               Log_Updated userAddress (toString (b - amount))]\<rparr>, Inr ()) \<and>
    BigNumber_from (toString (b - amount)) = Inr (b - amount) \<and>
    (amount = b \<longrightarrow>
       users (store (fst (handleWithdrawalProcessed User userAddress amount s)))
         (toLowerCase userAddress) = Some ''0'')"
proof -
  from assms(1) have a: "attempt (store s) = (store s, False)"
    by (rule attempt_healthy)
  have applied: "handleWithdrawalProcessed User userAddress amount s =
      (\<lparr>store = (store s)\<lparr>users :=
                 (users (store s))(toLowerCase userAddress \<mapsto> toString (b - amount))\<rparr>,
        console = console s @ [Log_Withdrawal userAddress (weiToEtherString amount),
                               Log_Updated userAddress (toString (b - amount))]\<rparr>, Inr ())"
    by (rule handleWithdrawalProcessed_applied [OF a assms(2) assms(3) assms(4) a])
  then show ?thesis
    by (auto simp: BigNumber_from_toString toString_zero)
qed

theorem withdrawal_within_balance_applied_witness:
  "faults (store one_account) = [] \<and>
   users (store one_account) (toLowerCase ''0xABC'') = Some ''100'' \<and>
   BigNumber_from ''100'' = Inr 100 \<and> (100::int) \<le> 100 \<and>
   users (store (fst (handleWithdrawalProcessed User ''0xABC'' 100 one_account)))
     (toLowerCase ''0xABC'') = Some ''0''"
proof -
  have h1: "faults (store one_account) = []"
    by (simp add: one_account_def)
  have h2: "users (store one_account) (toLowerCase ''0xABC'') = Some ''100''"
    by code_simp
  have h3: "BigNumber_from ''100'' = Inr 100"
    by code_simp
  have h4: "(100::int) \<le> 100"
    by simp
  from withdrawal_within_balance_applied [OF h1 h2 h3 h4] h1 h2 h3 h4 show ?thesis
    by blast
qed

section \<open>Invariants of the collection\<close>

lemma balances_nonneg_upd:
  "balances_nonneg db \<Longrightarrow> users db' = (users db)(a \<mapsto> bal) \<Longrightarrow> balance_nonneg bal \<Longrightarrow>
   balances_nonneg db'"
  by (auto simp: balances_nonneg_def ran_def split: if_splits)

lemma balances_nonneg_same:
  "balances_nonneg db \<Longrightarrow> users db' = users db \<Longrightarrow> balances_nonneg db'"
  by (simp add: balances_nonneg_def)

lemma deliver_nonneg:
  assumes "balances_nonneg (store s)"
  shows "balances_nonneg (store (deliver User e s))"
proof (cases e)
  case (Deposit user amount ev)
  have "balance_nonneg (toString (uint amount))"
    by (simp add: balance_nonneg_toString)
  with assms Deposit deposit_effect [of user "uint amount" s] show ?thesis
    by (auto intro: balances_nonneg_same balances_nonneg_upd)
next
  case (WithdrawalProcessed user amount ev)
  from withdrawal_effect [of user "uint amount" s] show ?thesis
  proof (elim disjE exE conjE)
    assume "users (store (fst (handleWithdrawalProcessed User user (uint amount) s))) =
      users (store s)"
    with assms WithdrawalProcessed show ?thesis
      by (simp add: balances_nonneg_same)
  next
    fix bal b
    assume "uint amount \<le> b"
      and "users (store (fst (handleWithdrawalProcessed User user (uint amount) s))) =
        (users (store s))(toLowerCase user \<mapsto> toString (b - uint amount))"
    with assms WithdrawalProcessed show ?thesis
      by (auto intro!: balances_nonneg_upd [of "store s"] balance_nonneg_toString)
  qed
qed

lemma run_nonneg: "balances_nonneg (store s) \<Longrightarrow> balances_nonneg (store (run User es s))"
  by (induction es arbitrary: s) (simp_all add: deliver_nonneg)

text \<open>
  C4: events are handled one after the other, each carrying a \<^verbatim>\<open>uint256\<close> amount. If
  every balance of the collection reads as an integer that is not negative, then so
  does every balance after any number of events of any sequence, whatever the events
  are and whenever the store fails: a deposit writes its amount, a withdrawal writes
  \<open>b - a\<close> only after the check \<open>a \<le> b\<close>.
\<close>

theorem balances_never_negative:
  assumes "balances_nonneg (store s)"
  shows "balances_nonneg (store (run User (take n es) s))"
  using assms by (rule run_nonneg)

theorem balances_never_negative_witness:
  "balances_nonneg (store one_account) \<and>
   balances_nonneg (store (run User
     (take 2 [WithdrawalProcessed ''0xABC'' 40 ''evt-1'', Deposit ''0xDEF'' 7 ''evt-2'',
              WithdrawalProcessed ''0xABC'' 1000 ''evt-3'']) one_account))"
proof -
  have "BigNumber_from ''100'' = Inr 100"
    by code_simp
  then have h: "balances_nonneg (store one_account)"
    by (simp add: one_account_def balances_nonneg_def balance_nonneg_def)
  from balances_never_negative [OF h] h show ?thesis
    by blast
qed

lemma deliver_effect:
  "users (store (deliver User e s)) = users (store s) \<or>
   (\<exists>user bal. users (store (deliver User e s)) = (users (store s))(toLowerCase user \<mapsto> bal) \<and>
      last (console (deliver User e s)) = Log_Updated user bal)"
proof (cases e)
  case (Deposit user amount ev)
  with deposit_effect [of user "uint amount" s] show ?thesis
    by auto
next
  case (WithdrawalProcessed user amount ev)
  with withdrawal_effect [of user "uint amount" s] show ?thesis
    by auto
qed

lemma deliver_dom: "dom (users (store s)) \<subseteq> dom (users (store (deliver User e s)))"
  using deliver_effect [of e s] by auto

lemma run_dom: "dom (users (store s)) \<subseteq> dom (users (store (run User es s)))"
proof (induction es arbitrary: s)
  case Nil
  show ?case by simp
next
  case (Cons e es)
  from deliver_dom [of s e] Cons [of "deliver User e s"] show ?case
    by simp
qed

lemma deliver_keys_lower:
  assumes "keys_lower (store s)"
  shows "keys_lower (store (deliver User e s))"
  using deliver_effect [of e s] assms
  by (auto simp: keys_lower_def toLowerCase_idem split: if_splits)

lemma run_keys_lower: "keys_lower (store s) \<Longrightarrow> keys_lower (store (run User es s))"
  by (induction es arbitrary: s) (simp_all add: deliver_keys_lower)

lemma handleDeposit_same_record:
  assumes "toLowerCase a1 = toLowerCase a2"
  shows "store (fst (handleDeposit U a1 amount s)) = store (fst (handleDeposit U a2 amount s))"
  using assms by (simp add: handler_defs split: prod.splits sum.splits option.splits)

lemma handleWithdrawalProcessed_same_record:
  assumes "toLowerCase a1 = toLowerCase a2"
  shows "store (fst (handleWithdrawalProcessed U a1 amount s)) =
    store (fst (handleWithdrawalProcessed U a2 amount s))"
  using assms by (simp add: handler_defs split: prod.splits sum.splits option.splits)

lemma handlers_touch_one_key:
  assumes "k \<noteq> toLowerCase userAddress"
  shows "users (store (fst (handleDeposit User userAddress amount s))) k = users (store s) k"
    and "users (store (fst (handleWithdrawalProcessed User userAddress amount s))) k =
      users (store s) k"
  using assms deposit_effect [of userAddress amount s]
    withdrawal_effect [of userAddress amount s]
  by auto


section \<open>Records are created by the first deposit and never deleted\<close>

text \<open>
  C7: on a store that answers, a deposit of \<open>a\<close> for an address with no record creates
  the record of the lower-cased address with the balance \<open>a\<close> (the decimal numeral of
  \<open>a\<close>, which reads back as \<open>a\<close>) and changes nothing else. After that, no sequence
  of events removes a record; and an event changes the collection only by writing one
  balance, in which case the handler ends with the line \<^verbatim>\<open>Updated user\<close> that shows
  this balance, the applied outcome.
\<close>

theorem first_deposit_creates_record:
  "(faults (store s) = [] \<and> users (store s) (toLowerCase userAddress) = None \<longrightarrow>
      handleDeposit User userAddress amount s =
        (\<lparr>store = (store s)\<lparr>users :=
                   (users (store s))(toLowerCase userAddress \<mapsto> toString amount)\<rparr>,
          console = console s @ [Log_Deposit userAddress (weiToEtherString amount),
                                 Log_Updated userAddress (toString amount)]\<rparr>, Inr ()) \<and>
      BigNumber_from (toString amount) = Inr amount) \<and>
   dom (users (store s)) \<subseteq> dom (users (store (run User es s))) \<and>
   (users (store (deliver User e s)) \<noteq> users (store s) \<longrightarrow>
      (\<exists>user bal.
         users (store (deliver User e s)) = (users (store s))(toLowerCase user \<mapsto> bal) \<and>
         last (console (deliver User e s)) = Log_Updated user bal))"
proof (intro conjI impI)
  assume "faults (store s) = [] \<and> users (store s) (toLowerCase userAddress) = None"
  then have "attempt (store s) = (store s, False)"
    by (simp add: attempt_healthy)
  then show "handleDeposit User userAddress amount s =
        (\<lparr>store = (store s)\<lparr>users :=
                   (users (store s))(toLowerCase userAddress \<mapsto> toString amount)\<rparr>,
          console = console s @ [Log_Deposit userAddress (weiToEtherString amount),
                                 Log_Updated userAddress (toString amount)]\<rparr>, Inr ())"
    by (rule handleDeposit_healthy)
next
  show "BigNumber_from (toString amount) = Inr amount"
    by (rule BigNumber_from_toString)
next
  show "dom (users (store s)) \<subseteq> dom (users (store (run User es s)))"
    by (rule run_dom)
next
  assume "users (store (deliver User e s)) \<noteq> users (store s)"
  with deliver_effect [of e s]
  show "\<exists>user bal.
         users (store (deliver User e s)) = (users (store s))(toLowerCase user \<mapsto> bal) \<and>
         last (console (deliver User e s)) = Log_Updated user bal"
    by (elim disjE) (erule notE, assumption)
qed

theorem first_deposit_creates_record_witness:
  "(faults (store no_account) = [] \<and> users (store no_account) (toLowerCase ''0xABC'') = None) \<and>
   handleDeposit User ''0xABC'' 100 no_account =
     (\<lparr>store = (store no_account)\<lparr>users :=
                (users (store no_account))(toLowerCase ''0xABC'' \<mapsto> toString 100)\<rparr>,
       console = console no_account @ [Log_Deposit ''0xABC'' (weiToEtherString 100),
                                       Log_Updated ''0xABC'' (toString 100)]\<rparr>, Inr ()) \<and>
   dom (users (store no_account)) \<subseteq>
     dom (users (store (run User [Deposit ''0xABC'' 100 ''evt-1''] no_account))) \<and>
   users (store (deliver User (Deposit ''0xABC'' 100 ''evt-1'') no_account)) \<noteq>
     users (store no_account) \<and>
   (\<exists>user bal.
      users (store (deliver User (Deposit ''0xABC'' 100 ''evt-1'') no_account)) =
        (users (store no_account))(toLowerCase user \<mapsto> bal) \<and>
      last (console (deliver User (Deposit ''0xABC'' 100 ''evt-1'') no_account)) =
        Log_Updated user bal)"
proof -
  have h1: "faults (store no_account) = [] \<and>
      users (store no_account) (toLowerCase ''0xABC'') = None"
    by (simp add: no_account_def)
  have "users (store (deliver User (Deposit ''0xABC'' 100 ''evt-1'') no_account)) ''0xabc'' =
      Some ''100''"
    by code_simp
  moreover have "users (store no_account) ''0xabc'' = None"
    by (simp add: no_account_def)
  ultimately have h2: "users (store (deliver User (Deposit ''0xABC'' 100 ''evt-1'') no_account)) \<noteq>
      users (store no_account)"
    by (metis option.distinct(1))
  note t = first_deposit_creates_record
    [of no_account "''0xABC''" 100 "[Deposit ''0xABC'' 100 ''evt-1'']"
      "Deposit ''0xABC'' 100 ''evt-1''"]
  note r1 = t [THEN conjunct1, rule_format, OF h1, THEN conjunct1]
  note r2 = t [THEN conjunct2, THEN conjunct1]
  note r3 = t [THEN conjunct2, THEN conjunct2, rule_format, OF h2]
  show ?thesis
    by (intro conjI; fact h1 [THEN conjunct1] h1 [THEN conjunct2] h2 r1 r2 r3)
qed


section \<open>Accounts are keyed by the lower-cased address\<close>

text \<open>
  C9: both handlers reach the record through the lower-cased address. On a store that
  answers, a deposit writes its balance under \<open>toLowerCase userAddress\<close>; a withdrawal
  reads the record under \<open>toLowerCase userAddress\<close> (it finds no user when there is no
  record under that key, whatever is kept under other spellings) and, when it is
  applied, writes the new balance under that same key. So two addresses that differ
  only in letter case lead to the same store, a handler leaves every record but the one
  of the lower-cased address as it is, and when every address of the collection is in
  lower case, it is so after any sequence of events.
\<close>

theorem accounts_keyed_by_lower_case:
  "(faults (store s) = [] \<longrightarrow>
      users (store (fst (handleDeposit User userAddress amount s))) =
        (users (store s))(toLowerCase userAddress \<mapsto> toString amount)) \<and>
   (faults (store s) = [] \<and> users (store s) (toLowerCase userAddress) = None \<longrightarrow>
      handleWithdrawalProcessed User userAddress amount s =
        (s\<lparr>console := console s @ [Log_Withdrawal userAddress (weiToEtherString amount),
                                    Warn_NotFound userAddress]\<rparr>, Inr ())) \<and>
   (faults (store s) = [] \<and> users (store s) (toLowerCase userAddress) = Some bal \<and>
    BigNumber_from bal = Inr b \<and> amount \<le> b \<longrightarrow>
      users (store (fst (handleWithdrawalProcessed User userAddress amount s))) =
        (users (store s))(toLowerCase userAddress \<mapsto> toString (b - amount))) \<and>
   (toLowerCase a1 = toLowerCase a2 \<longrightarrow>
      store (fst (handleDeposit User a1 amount s)) =
        store (fst (handleDeposit User a2 amount s)) \<and>
      store (fst (handleWithdrawalProcessed User a1 amount s)) =
        store (fst (handleWithdrawalProcessed User a2 amount s))) \<and>
   (k \<noteq> toLowerCase userAddress \<longrightarrow>
      users (store (fst (handleDeposit User userAddress amount s))) k = users (store s) k \<and>
      users (store (fst (handleWithdrawalProcessed User userAddress amount s))) k =
        users (store s) k) \<and>
   (keys_lower (store s) \<longrightarrow> keys_lower (store (run User es s)))"
proof (intro conjI impI)
  assume "faults (store s) = []"
  then have "attempt (store s) = (store s, False)"
    by (rule attempt_healthy)
  then show "users (store (fst (handleDeposit User userAddress amount s))) =
      (users (store s))(toLowerCase userAddress \<mapsto> toString amount)"
    by (simp add: handleDeposit_healthy)
next
  assume h: "faults (store s) = [] \<and> users (store s) (toLowerCase userAddress) = None"
  then have "attempt (store s) = (store s, False)"
    by (simp add: attempt_healthy)
  with h show "handleWithdrawalProcessed User userAddress amount s =
      (s\<lparr>console := console s @ [Log_Withdrawal userAddress (weiToEtherString amount),
                                  Warn_NotFound userAddress]\<rparr>, Inr ())"
    by (simp add: handleWithdrawalProcessed_not_found [where db = "store s"])
next
  assume h: "faults (store s) = [] \<and> users (store s) (toLowerCase userAddress) = Some bal \<and>
    BigNumber_from bal = Inr b \<and> amount \<le> b"
  then have "store (fst (handleWithdrawalProcessed User userAddress amount s)) =
      (store s)\<lparr>users :=
         (users (store s))(toLowerCase userAddress \<mapsto> toString (b - amount))\<rparr>"
    by (intro withdrawal_healthy_applied [where bal = bal]) simp_all
  then show "users (store (fst (handleWithdrawalProcessed User userAddress amount s))) =
      (users (store s))(toLowerCase userAddress \<mapsto> toString (b - amount))"
    by simp
next
  assume "toLowerCase a1 = toLowerCase a2"
  then show "store (fst (handleDeposit User a1 amount s)) =
      store (fst (handleDeposit User a2 amount s))"
    and "store (fst (handleWithdrawalProcessed User a1 amount s)) =
      store (fst (handleWithdrawalProcessed User a2 amount s))"
    by (rule handleDeposit_same_record, rule handleWithdrawalProcessed_same_record)
next
  assume "k \<noteq> toLowerCase userAddress"
  then show "users (store (fst (handleDeposit User userAddress amount s))) k =
      users (store s) k"
    and "users (store (fst (handleWithdrawalProcessed User userAddress amount s))) k =
      users (store s) k"
    by (rule handlers_touch_one_key)+
next
  assume "keys_lower (store s)"
  then show "keys_lower (store (run User es s))"
    by (rule run_keys_lower)
qed


theorem accounts_keyed_by_lower_case_witness:
  "faults (store one_account) = [] \<and>
   toLowerCase ''0xAbC'' = ''0xabc'' \<and>
   users (store (fst (handleDeposit User ''0xAbC'' 40 one_account))) =
     (users (store one_account))(toLowerCase ''0xAbC'' \<mapsto> toString 40) \<and>
   faults (store upper_case_account) = [] \<and>
   users (store upper_case_account) ''0xABC'' = Some ''100'' \<and>
   users (store upper_case_account) (toLowerCase ''0xABC'') = None \<and>
   handleWithdrawalProcessed User ''0xABC'' 40 upper_case_account =
     (upper_case_account\<lparr>console := console upper_case_account @
        [Log_Withdrawal ''0xABC'' (weiToEtherString 40), Warn_NotFound ''0xABC'']\<rparr>, Inr ()) \<and>
   users (store one_account) ''0xAbC'' = None \<and>
   users (store one_account) (toLowerCase ''0xAbC'') = Some ''100'' \<and>
   BigNumber_from ''100'' = Inr 100 \<and> (40::int) \<le> 100 \<and>
   users (store (fst (handleWithdrawalProcessed User ''0xAbC'' 40 one_account))) =
     (users (store one_account))(toLowerCase ''0xAbC'' \<mapsto> toString (100 - 40)) \<and>
   toLowerCase ''0xABC'' = toLowerCase ''0xabc'' \<and>
   store (fst (handleDeposit User ''0xABC'' 40 one_account)) =
     store (fst (handleDeposit User ''0xabc'' 40 one_account)) \<and>
   store (fst (handleWithdrawalProcessed User ''0xABC'' 40 one_account)) =
     store (fst (handleWithdrawalProcessed User ''0xabc'' 40 one_account)) \<and>
   ''0xdef'' \<noteq> toLowerCase ''0xABC'' \<and>
   users (store (fst (handleDeposit User ''0xABC'' 40 one_account))) ''0xdef'' =
     users (store one_account) ''0xdef'' \<and>
   keys_lower (store one_account) \<and>
   keys_lower (store (run User [Deposit ''0xDEF'' 7 ''evt-1''] one_account))"
proof -
  have f1: "faults (store one_account) = []"
    by (simp add: one_account_def)
  have l1: "toLowerCase ''0xAbC'' = ''0xabc''"
    by code_simp
  have f2: "faults (store upper_case_account) = []"
    by (simp add: upper_case_account_def)
  have u2: "users (store upper_case_account) ''0xABC'' = Some ''100''"
    by code_simp
  have n2: "users (store upper_case_account) (toLowerCase ''0xABC'') = None"
    by code_simp
  have n3: "users (store one_account) ''0xAbC'' = None"
    by code_simp
  have u3: "users (store one_account) (toLowerCase ''0xAbC'') = Some ''100''"
    by code_simp
  have p3: "BigNumber_from ''100'' = Inr 100"
    by code_simp
  have le3: "(40::int) \<le> 100"
    by simp
  have h1: "toLowerCase ''0xABC'' = toLowerCase ''0xabc''"
    by code_simp
  have h2: "''0xdef'' \<noteq> toLowerCase ''0xABC''"
    by code_simp
  have "toLowerCase ''0xabc'' = ''0xabc''"
    by code_simp
  then have h3: "keys_lower (store one_account)"
    by (simp add: keys_lower_def one_account_def)
  note w = accounts_keyed_by_lower_case
    [where s = one_account and userAddress = "''0xAbC''" and amount = 40 and bal = "''100''"
      and b = 100]
  note d1 = w [THEN conjunct1, rule_format, OF f1]
  note d3 = w [THEN conjunct2, THEN conjunct2, THEN conjunct1, rule_format,
      OF conjI [OF f1 conjI [OF u3 conjI [OF p3 le3]]]]
  note d2 = accounts_keyed_by_lower_case
    [where s = upper_case_account and userAddress = "''0xABC''" and amount = 40,
      THEN conjunct2, THEN conjunct1, rule_format, OF conjI [OF f2 n2]]
  note t = accounts_keyed_by_lower_case
    [where s = one_account and userAddress = "''0xABC''" and amount = 40
      and ?a1.0 = "''0xABC''" and ?a2.0 = "''0xabc''" and k = "''0xdef''"
      and es = "[Deposit ''0xDEF'' 7 ''evt-1'']",
      THEN conjunct2, THEN conjunct2, THEN conjunct2]
  note r1 = t [THEN conjunct1, rule_format, OF h1]
  note r2 = t [THEN conjunct2, THEN conjunct1, rule_format, OF h2, THEN conjunct1]
  note r3 = t [THEN conjunct2, THEN conjunct2, rule_format, OF h3]
  show ?thesis
    by (intro conjI; fact f1 l1 d1 f2 u2 n2 d2 n3 u3 p3 le3 d3 h1 h2 h3
        r1 [THEN conjunct1] r1 [THEN conjunct2] r2 r3)
qed

section \<open>Deposits overwrite\<close>

text \<open>
  C1: the account \<^verbatim>\<open>0xabc\<close> holds the balance 100 and a deposit of 50 arrives for
  \<^verbatim>\<open>0xABC\<close>. The handler passes \<^verbatim>\<open>{ balance: amount.toString() }\<close> as the update, so
  the record then holds 50, the amount of the deposit, and not 150.
\<close>

theorem deposit_overwrites_balance:
  "users (store one_account) ''0xabc'' = Some ''100'' \<and>
   users (store (fst (handleDeposit User ''0xABC'' 50 one_account))) ''0xabc'' = Some ''50'' \<and>
   users (store (run User [Deposit ''0xABC'' 50 ''evt-2''] one_account)) ''0xabc'' = Some ''50'' \<and>
   toString (100 + 50) = ''150''"
  by (intro conjI; code_simp)

section \<open>Redelivered events\<close>




section \<open>Store failures\<close>

text \<open>
  C8, as stated, fails: the store has no account and its next call fails, once. The
  deposit of 100 for \<^verbatim>\<open>0xABC\<close> makes that one call, prints the error and ends: the store
  answers again afterwards, and no record of the deposit exists.
\<close>

theorem store_failure_drops_event:
  "faults (store store_down_once) = [True] \<and>
   users (store (run User [Deposit ''0xABC'' 100 ''evt-1''] store_down_once)) ''0xabc'' = None \<and>
   faults (store (run User [Deposit ''0xABC'' 100 ''evt-1''] store_down_once)) = [] \<and>
   console (run User [Deposit ''0xABC'' 100 ''evt-1''] store_down_once) =
     [Log_Deposit ''0xABC'' ''0.0000000000000001'', Error_Deposit StoreError]"
  by (intro conjI; code_simp)

text \<open>
  C8, amended: a call of the store that throws is not repeated. The exception is caught
  by the handler, which prints it with \<^verbatim>\<open>console.error\<close> and completes; the handler has
  made one call when the query throws, two when \<^verbatim>\<open>user.save()\<close> throws, and the
  collection is as it was before the event. Nothing keeps the event for a later
  attempt.
\<close>

theorem store_failure_not_retried:
  "(faults (store s) = True # fs \<longrightarrow>
      handleDeposit User userAddress amount s =
        (\<lparr>store = (store s)\<lparr>faults := fs\<rparr>,
          console = console s @ [Log_Deposit userAddress (weiToEtherString amount),
                                 Error_Deposit StoreError]\<rparr>, Inr ()) \<and>
      handleWithdrawalProcessed User userAddress amount s =
        (\<lparr>store = (store s)\<lparr>faults := fs\<rparr>,
          console = console s @ [Log_Withdrawal userAddress (weiToEtherString amount),
                                 Error_Withdrawal StoreError]\<rparr>, Inr ())) \<and>
   (faults (store s) = False # True # fs \<and>
    users (store s) (toLowerCase userAddress) = Some bal \<and>
    BigNumber_from bal = Inr b \<and> amount \<le> b \<longrightarrow>
      handleWithdrawalProcessed User userAddress amount s =
        (\<lparr>store = (store s)\<lparr>faults := fs\<rparr>,
          console = console s @ [Log_Withdrawal userAddress (weiToEtherString amount),
                                 Error_Withdrawal StoreError]\<rparr>, Inr ()))"
proof (intro conjI impI)
  assume "faults (store s) = True # fs"
  then have a: "attempt (store s) = ((store s)\<lparr>faults := fs\<rparr>, True)"
    by (rule attempt_scheduled)
  show "handleDeposit User userAddress amount s =
        (\<lparr>store = (store s)\<lparr>faults := fs\<rparr>,
          console = console s @ [Log_Deposit userAddress (weiToEtherString amount),
                                 Error_Deposit StoreError]\<rparr>, Inr ())"
    by (rule handleDeposit_failed [OF a])
  show "handleWithdrawalProcessed User userAddress amount s =
        (\<lparr>store = (store s)\<lparr>faults := fs\<rparr>,
          console = console s @ [Log_Withdrawal userAddress (weiToEtherString amount),
                                 Error_Withdrawal StoreError]\<rparr>, Inr ())"
    by (rule handleWithdrawalProcessed_failed [OF a])
next
  assume h: "faults (store s) = False # True # fs \<and>
    users (store s) (toLowerCase userAddress) = Some bal \<and>
    BigNumber_from bal = Inr b \<and> amount \<le> b"
  let ?db = "(store s)\<lparr>faults := True # fs\<rparr>"
  from h have a: "attempt (store s) = (?db, False)"
    by (simp add: attempt_scheduled)
  have a': "attempt ?db = (?db\<lparr>faults := fs\<rparr>, True)"
    by (rule attempt_scheduled) simp
  from h have u: "users ?db (toLowerCase userAddress) = Some bal"
    by simp
  from h have p: "BigNumber_from bal = Inr b" and le: "amount \<le> b"
    by simp_all
  from handleWithdrawalProcessed_save_failed [OF a u p le a']
  show "handleWithdrawalProcessed User userAddress amount s =
        (\<lparr>store = (store s)\<lparr>faults := fs\<rparr>,
          console = console s @ [Log_Withdrawal userAddress (weiToEtherString amount),
                                 Error_Withdrawal StoreError]\<rparr>, Inr ())"
    by simp
qed

theorem store_failure_not_retried_witness:
  "faults (store store_down_once) = True # [] \<and>
   handleDeposit User ''0xABC'' 100 store_down_once =
     (\<lparr>store = (store store_down_once)\<lparr>faults := []\<rparr>,
       console = console store_down_once @ [Log_Deposit ''0xABC'' (weiToEtherString 100),
                                            Error_Deposit StoreError]\<rparr>, Inr ()) \<and>
   (faults (store save_down_once) = False # True # [] \<and>
    users (store save_down_once) (toLowerCase ''0xABC'') = Some ''100'' \<and>
    BigNumber_from ''100'' = Inr 100 \<and> (40::int) \<le> 100) \<and>
   handleWithdrawalProcessed User ''0xABC'' 40 save_down_once =
     (\<lparr>store = (store save_down_once)\<lparr>faults := []\<rparr>,
       console = console save_down_once @ [Log_Withdrawal ''0xABC'' (weiToEtherString 40),
                                           Error_Withdrawal StoreError]\<rparr>, Inr ())"
proof -
  have h1: "faults (store store_down_once) = True # []"
    by (simp add: store_down_once_def)
  have g1: "faults (store save_down_once) = False # True # []"
    by (simp add: save_down_once_def)
  have g2: "users (store save_down_once) (toLowerCase ''0xABC'') = Some ''100''"
    by code_simp
  have g3: "BigNumber_from ''100'' = Inr 100"
    by code_simp
  have g4: "(40::int) \<le> 100"
    by simp
  from g1 g2 g3 g4 have h2: "faults (store save_down_once) = False # True # [] \<and>
    users (store save_down_once) (toLowerCase ''0xABC'') = Some ''100'' \<and>
    BigNumber_from ''100'' = Inr 100 \<and> (40::int) \<le> 100"
    by (intro conjI)
  note r1 = store_failure_not_retried
    [where s = store_down_once and fs = "[]" and userAddress = "''0xABC''" and amount = 100,
      THEN conjunct1, rule_format, OF h1, THEN conjunct1]
  note r2 = store_failure_not_retried
    [where s = save_down_once and fs = "[]" and userAddress = "''0xABC''" and bal = "''100''"
      and b = 100 and amount = 40, THEN conjunct2, rule_format, OF h2]
  show ?thesis
    by (intro conjI; fact h1 g1 g2 g3 g4 r1 r2)
qed

end
